theory Spec2Isabelle
  imports Complex_Main "HOL-Library.Char_ord" "HOL-Library.List_Lexorder"
begin

section \<open>Restaurant monitoring: the uptime report engine\<close>

text \<open>
  A shallow embedding of \<^verbatim>\<open>src/database.py\<close>, \<^verbatim>\<open>src/services.py\<close> and
  \<^verbatim>\<open>src/main.py\<close>. Exceptions are values of the type \<open>error\<close>, the database session is
  a record of its four tables, the report directory is a map from paths to files, and
  the two wall-clock readings and the outcome of the file write are parameters of the
  job.
\<close>

subsection \<open>The datetime library\<close>

text \<open>
  A Python \<^verbatim>\<open>datetime\<close> is its calendar fields together with an optional \<^verbatim>\<open>tzinfo\<close>.
  The calendar fields (year to microsecond) are kept as one integer, the microseconds
  from 1970-01-01 00:00:00 on the object's own clock. An object without \<^verbatim>\<open>tzinfo\<close> is
  naive. An aware object carries the UTC offset of its \<^verbatim>\<open>tzinfo\<close>, in microseconds:
  pytz attaches a fixed-offset \<^verbatim>\<open>tzinfo\<close> to every datetime it produces.
  A \<^verbatim>\<open>datetime.time\<close> is the microseconds since midnight, a \<^verbatim>\<open>date\<close> the days since
  1970-01-01, a \<^verbatim>\<open>timedelta\<close> a number of microseconds. The range of years (1 to 9999)
  is not modelled.
\<close>

datatype error = TypeError | UnknownTimeZoneError | OSError | IntegrityError

record datetime =
  wall :: int
  tzinfo :: "int option"

text \<open>A time zone of the zone database: the UTC offset in force at each UTC instant.\<close>

type_synonym tzfile = "int \<Rightarrow> int"

text \<open>
  The zone database, \<^verbatim>\<open>pytz.timezone\<close>: it raises \<^verbatim>\<open>UnknownTimeZoneError\<close>
  on a name it does not hold (\<open>None\<close> here). It is a parameter of the model.
\<close>

type_synonym zonedb = "string \<Rightarrow> tzfile option"

definition SECOND :: int where
  "SECOND = 1000000"

definition HOUR :: int where
  "HOUR = 3600 * SECOND"

definition DAY :: int where
  "DAY = 24 * HOUR"

definition time_of :: "int \<Rightarrow> int \<Rightarrow> int \<Rightarrow> int" where
  \<comment> \<open>\<^verbatim>\<open>time(h, m, s)\<close>\<close>
  "time_of h m s = ((h * 60 + m) * 60 + s) * SECOND"

definition naive :: "int \<Rightarrow> datetime" where
  "naive w = \<lparr>wall = w, tzinfo = None\<rparr>"

definition pytz_utc :: tzfile where
  "pytz_utc = (\<lambda>u. 0)"

definition replace_tzinfo :: "datetime \<Rightarrow> int \<Rightarrow> datetime" where
  \<comment> \<open>\<^verbatim>\<open>d.replace(tzinfo=z)\<close> for a fixed-offset zone: the calendar fields stay.\<close>
  "replace_tzinfo d off = d\<lparr>tzinfo := Some off\<rparr>"

definition astimezone :: "datetime \<Rightarrow> tzfile \<Rightarrow> datetime" where
  \<comment> \<open>\<^verbatim>\<open>d.astimezone(z)\<close>: the same instant on the clock of \<open>z\<close>. Every call of the
     source is on an aware datetime; Python reads a naive one on the system's clock,
     taken to be UTC here.\<close>
  "astimezone d z =
     (let u = wall d - (case tzinfo d of None \<Rightarrow> 0 | Some off \<Rightarrow> off)
      in \<lparr>wall = u + z u, tzinfo = Some (z u)\<rparr>)"

definition sub_timedelta :: "datetime \<Rightarrow> int \<Rightarrow> datetime" where
  \<comment> \<open>\<^verbatim>\<open>d - timedelta(...)\<close>: arithmetic on the calendar fields, same \<^verbatim>\<open>tzinfo\<close>.\<close>
  "sub_timedelta d delta = d\<lparr>wall := wall d - delta\<rparr>"

definition date_of :: "datetime \<Rightarrow> int" where
  "date_of d = wall d div DAY"

definition weekday :: "datetime \<Rightarrow> int" where
  \<comment> \<open>Monday is 0; 1970-01-01 was a Thursday.\<close>
  "weekday d = (date_of d + 3) mod 7"

definition combine :: "int \<Rightarrow> int \<Rightarrow> datetime" where
  \<comment> \<open>\<^verbatim>\<open>datetime.combine(date, time)\<close> with a \<^verbatim>\<open>time\<close> that has no \<^verbatim>\<open>tzinfo\<close>:
     the result is naive.\<close>
  "combine date tm = \<lparr>wall = date * DAY + tm, tzinfo = None\<rparr>"

definition datetime_le :: "datetime \<Rightarrow> datetime \<Rightarrow> error + bool" where
  \<comment> \<open>\<^verbatim>\<open>a <= b\<close>. Two naive datetimes compare by their fields, two aware ones by
     their instants; an order comparison of a naive with an aware datetime raises
     \<^verbatim>\<open>TypeError\<close> (can't compare offset-naive and offset-aware datetimes).\<close>
  "datetime_le a b =
     (case (tzinfo a, tzinfo b) of
        (None, None) \<Rightarrow> Inr (wall a \<le> wall b)
      | (Some x, Some y) \<Rightarrow> Inr (wall a - x \<le> wall b - y)
      | (None, Some y) \<Rightarrow> Inl TypeError
      | (Some x, None) \<Rightarrow> Inl TypeError)"

subsection \<open>The tables of \<^verbatim>\<open>database.py\<close>\<close>

text \<open>
  One record per model class; the field names carry a prefix of the table, since two
  records cannot share a field name. \<^verbatim>\<open>DateTime\<close> columns hold naive datetimes and are
  kept as their calendar fields; \<^verbatim>\<open>Time\<close> columns hold naive times. A session
  is its four tables, \<open>tbl_\<close> and the table's name.
\<close>

record StoreStatus =
  ss_store_id :: string
  ss_timestamp_utc :: int
  ss_status :: string

record BusinessHours =
  bh_store_id :: string
  bh_day_of_week :: int
  bh_start_time_local :: int
  bh_end_time_local :: int

record Timezone =
  tz_store_id :: string
  tz_timezone_str :: string

record ReportStatus =
  rs_report_id :: string
  rs_status :: string
  rs_created_at :: int
  rs_completed_at :: "int option"

record Session =
  tbl_store_status :: "StoreStatus list"
  tbl_business_hours :: "BusinessHours list"
  tbl_timezone :: "Timezone list"
  tbl_report_status :: "ReportStatus list"

subsection \<open>The resolvers of \<^verbatim>\<open>services.py\<close>\<close>

definition first :: "'a list \<Rightarrow> 'a option" where
  \<comment> \<open>\<^verbatim>\<open>query.first()\<close>\<close>
  "first xs = (case xs of [] \<Rightarrow> None | x # _ \<Rightarrow> Some x)"

definition get_report_status :: "string \<Rightarrow> Session \<Rightarrow> ReportStatus option" where
  "get_report_status report_id db =
     first (filter (\<lambda>r. rs_report_id r = report_id) (tbl_report_status db))"

definition sql_max :: "int list \<Rightarrow> int option" where
  \<comment> \<open>\<^verbatim>\<open>func.max(column)\<close>: \<^verbatim>\<open>NULL\<close> over no rows.\<close>
  "sql_max xs = (case xs of [] \<Rightarrow> None | x # ys \<Rightarrow> Some (fold max ys x))"

definition get_max_timestamp :: "Session \<Rightarrow> int \<Rightarrow> int" where
  \<comment> \<open>The second argument is the reading of \<^verbatim>\<open>datetime.utcnow()\<close>.\<close>
  "get_max_timestamp db utcnow =
     (case sql_max (map ss_timestamp_utc (tbl_store_status db)) of
        None \<Rightarrow> utcnow
      | Some max_timestamp \<Rightarrow> max_timestamp)"

definition get_store_timezone :: "string \<Rightarrow> Session \<Rightarrow> string" where
  "get_store_timezone store_id db =
     (case first (filter (\<lambda>r. tz_store_id r = store_id) (tbl_timezone db)) of
        Some timezone_record \<Rightarrow> tz_timezone_str timezone_record
      | None \<Rightarrow> ''America/Chicago'')"

record hours =
  day_of_week :: int
  start_time_local :: int
  end_time_local :: int

definition get_business_hours :: "string \<Rightarrow> Session \<Rightarrow> hours list" where
  "get_business_hours store_id db =
     (let hs = filter (\<lambda>r. bh_store_id r = store_id) (tbl_business_hours db)
      in if hs \<noteq> [] then
           map (\<lambda>hour. \<lparr>day_of_week = bh_day_of_week hour,
                         start_time_local = bh_start_time_local hour,
                         end_time_local = bh_end_time_local hour\<rparr>) hs
         else
           map (\<lambda>day. \<lparr>day_of_week = day,
                        start_time_local = time_of 0 0 0,
                        end_time_local = time_of 23 59 59\<rparr>) [0..6])"

subsection \<open>\<^verbatim>\<open>is_store_open\<close>\<close>

text \<open>
  The loop over the rules. A rule of the local weekday builds \<^verbatim>\<open>start_dt\<close> and
  \<^verbatim>\<open>end_dt\<close> with \<^verbatim>\<open>datetime.combine\<close> and evaluates the chained comparison
  \<^verbatim>\<open>start_dt <= local_time <= end_dt\<close> from the left, the second comparison only when
  the first is true.
\<close>

fun matching_hours :: "datetime \<Rightarrow> int \<Rightarrow> hours list \<Rightarrow> error + bool" where
  "matching_hours local_time dow [] = Inr False"
| "matching_hours local_time dow (h # business_hours) =
     (if day_of_week h = dow then
        (let start_dt = combine (date_of local_time) (start_time_local h);
             end_dt = combine (date_of local_time) (end_time_local h)
         in case datetime_le start_dt local_time of
              Inl e \<Rightarrow> Inl e
            | Inr lower \<Rightarrow>
                if lower then
                  (case datetime_le local_time end_dt of
                     Inl e \<Rightarrow> Inl e
                   | Inr upper \<Rightarrow>
                       if upper then Inr True
                       else matching_hours local_time dow business_hours)
                else matching_hours local_time dow business_hours)
      else matching_hours local_time dow business_hours)"

definition is_store_open ::
  "zonedb \<Rightarrow> datetime \<Rightarrow> string \<Rightarrow> hours list \<Rightarrow> string \<Rightarrow> error + bool" where
  "is_store_open tzdb timestamp_utc store_id business_hours tz_str =
     (case tzdb tz_str of
        None \<Rightarrow> Inl UnknownTimeZoneError
      | Some local_tz \<Rightarrow>
          (let local_time = astimezone (replace_tzinfo timestamp_utc 0) local_tz;
               dow = weekday local_time
           in matching_hours local_time dow business_hours))"

subsection \<open>\<^verbatim>\<open>calculate_uptime_downtime\<close>\<close>

text \<open>
  The result dictionary. Its numbers are Python floats (and the integer 0 where a
  metric is never assigned); they are reals here.
\<close>

record UptimeResult =
  row_store_id :: string
  uptime_last_hour :: real
  uptime_last_day :: real
  uptime_last_week :: real
  downtime_last_hour :: real
  downtime_last_day :: real
  downtime_last_week :: real

definition zero_result :: "string \<Rightarrow> UptimeResult" where
  "zero_result store_id =
     \<lparr>row_store_id = store_id,
      uptime_last_hour = 0, uptime_last_day = 0, uptime_last_week = 0,
      downtime_last_hour = 0, downtime_last_day = 0, downtime_last_week = 0\<rparr>"

text \<open>
  \<^verbatim>\<open>Series.apply\<close> and the loop that appends one result per element: the function is
  called element by element and the first exception ends the loop.
\<close>

fun apply_rows :: "('a \<Rightarrow> error + 'b) \<Rightarrow> 'a list \<Rightarrow> error + 'b list" where
  "apply_rows f [] = Inr []"
| "apply_rows f (x # xs) =
     (case f x of
        Inl e \<Rightarrow> Inl e
      | Inr y \<Rightarrow> (case apply_rows f xs of Inl e \<Rightarrow> Inl e | Inr ys \<Rightarrow> Inr (y # ys)))"

text \<open>
  The loops \<^verbatim>\<open>for i in range(n)\<close> that count the hours at which the store is open:
  \<open>check i\<close> is the call of \<^verbatim>\<open>is_store_open\<close> of step \<open>i\<close>.
\<close>

fun count_open_hours :: "(nat \<Rightarrow> error + bool) \<Rightarrow> nat list \<Rightarrow> nat \<Rightarrow> error + nat" where
  "count_open_hours check [] total_business_hours = Inr total_business_hours"
| "count_open_hours check (i # steps) total_business_hours =
     (case check i of
        Inl e \<Rightarrow> Inl e
      | Inr is_open \<Rightarrow>
          count_open_hours check steps
            (if is_open then total_business_hours + 1 else total_business_hours))"

definition active_ratio :: "StoreStatus list \<Rightarrow> real" where
  \<comment> \<open>Called on a non-empty frame only.\<close>
  "active_ratio df =
     real (length (filter (\<lambda>r. ss_status r = ''active'') df)) / real (length df)"

definition last_hour :: "StoreStatus list \<Rightarrow> int \<Rightarrow> UptimeResult \<Rightarrow> UptimeResult" where
  "last_hour business_hours_df hour_ago result =
     (let hour_df = filter (\<lambda>r. hour_ago \<le> ss_timestamp_utc r) business_hours_df
      in if hour_df \<noteq> [] then
           (let uptime = active_ratio hour_df * 60
            in result\<lparr>uptime_last_hour := uptime, downtime_last_hour := 60 - uptime\<rparr>)
         else result)"

definition last_day ::
  "zonedb \<Rightarrow> StoreStatus list \<Rightarrow> int \<Rightarrow> int \<Rightarrow> tzfile \<Rightarrow> string \<Rightarrow> hours list \<Rightarrow> string \<Rightarrow>
   UptimeResult \<Rightarrow> error + UptimeResult" where
  "last_day tzdb business_hours_df day_ago current_time local_tz store_id business_hours tz_str result =
     (let day_df = filter (\<lambda>r. day_ago \<le> ss_timestamp_utc r) business_hours_df
      in if day_df \<noteq> [] then
           (let current_local_time =
                  astimezone (replace_tzinfo (naive current_time) 0) local_tz
            in case count_open_hours
                      (\<lambda>i. is_store_open tzdb
                              (astimezone (sub_timedelta current_local_time (int i * HOUR)) pytz_utc)
                              store_id business_hours tz_str)
                      [0..<24] 0 of
                 Inl e \<Rightarrow> Inl e
               | Inr total_business_hours \<Rightarrow>
                   (let uptime = active_ratio day_df * real total_business_hours
                    in Inr (result\<lparr>uptime_last_day := uptime,
                                    downtime_last_day := real total_business_hours - uptime\<rparr>)))
         else Inr result)"

definition last_week ::
  "zonedb \<Rightarrow> StoreStatus list \<Rightarrow> int \<Rightarrow> string \<Rightarrow> hours list \<Rightarrow> string \<Rightarrow>
   UptimeResult \<Rightarrow> error + UptimeResult" where
  "last_week tzdb business_hours_df current_time store_id business_hours tz_str result =
     (let week_df = business_hours_df
      in if week_df \<noteq> [] then
           (case count_open_hours
                   (\<lambda>i. is_store_open tzdb (sub_timedelta (naive current_time) (int i * HOUR))
                           store_id business_hours tz_str)
                   [0..<7 * 24] 0 of
              Inl e \<Rightarrow> Inl e
            | Inr total_business_hours \<Rightarrow>
                (let uptime = active_ratio week_df * real total_business_hours
                 in Inr (result\<lparr>uptime_last_week := uptime,
                                 downtime_last_week := real total_business_hours - uptime\<rparr>)))
         else Inr result)"

definition calculate_uptime_downtime ::
  "zonedb \<Rightarrow> string \<Rightarrow> int \<Rightarrow> Session \<Rightarrow> error + UptimeResult" where
  "calculate_uptime_downtime tzdb store_id current_time db =
     (let tz_str = get_store_timezone store_id db
      in case tzdb tz_str of
           None \<Rightarrow> Inl UnknownTimeZoneError
         | Some local_tz \<Rightarrow>
             (let business_hours = get_business_hours store_id db;
                  hour_ago = current_time - HOUR;
                  day_ago = current_time - DAY;
                  week_ago = current_time - 7 * DAY;
                  status_records =
                    sort_key ss_timestamp_utc
                      (filter (\<lambda>r. ss_store_id r = store_id \<and> week_ago \<le> ss_timestamp_utc r
                                   \<and> ss_timestamp_utc r \<le> current_time)
                         (tbl_store_status db))
              in if status_records = [] then Inr (zero_result store_id)
                 else
                   (case apply_rows
                           (\<lambda>r. is_store_open tzdb (naive (ss_timestamp_utc r))
                                   store_id business_hours tz_str)
                           status_records of
                      Inl e \<Rightarrow> Inl e
                    | Inr is_business_hours \<Rightarrow>
                        (let business_hours_df =
                               map fst (filter snd (zip status_records is_business_hours))
                         in if business_hours_df = [] then Inr (zero_result store_id)
                            else
                              (let result = last_hour business_hours_df hour_ago
                                              (zero_result store_id)
                               in case last_day tzdb business_hours_df day_ago current_time
                                         local_tz store_id business_hours tz_str result of
                                    Inl e \<Rightarrow> Inl e
                                  | Inr result \<Rightarrow>
                                      last_week tzdb business_hours_df current_time store_id
                                        business_hours tz_str result)))))"

subsection \<open>\<^verbatim>\<open>trigger_report_generation\<close>\<close>

text \<open>
  A report file is its header line and its rows. The report directory maps a path to
  the file stored there.
\<close>

record csvfile =
  header :: "string list"
  rows :: "UptimeResult list"

type_synonym files = "string \<Rightarrow> csvfile option"

text \<open>
  What the run of one job reads from outside the database: the two readings of
  \<^verbatim>\<open>datetime.utcnow()\<close> and the fate of the file write. \<open>OpenFails\<close>: \<^verbatim>\<open>open\<close> raises and no
  file is made. \<open>WriteFails n\<close>: the write raises once the header and at most \<open>n\<close> rows
  are in the file.
\<close>

datatype io_outcome = Written | OpenFails | WriteFails nat

record job_world =
  utcnow_start :: int
  io :: io_outcome
  utcnow_end :: int

definition fieldnames :: "string list" where
  "fieldnames =
     [''store_id'', ''uptime_last_hour'', ''uptime_last_day'', ''uptime_last_week'',
      ''downtime_last_hour'', ''downtime_last_day'', ''downtime_last_week'']"

definition output_file :: "string \<Rightarrow> string" where
  "output_file report_id = ''reports/'' @ report_id @ ''.csv''"

text \<open>
  \<^verbatim>\<open>db.query(StoreStatus.store_id).distinct().all()\<close>. The query has no
  \<^verbatim>\<open>ORDER BY\<close>; the column \<^verbatim>\<open>store_id\<close> is indexed (\<^verbatim>\<open>index=True\<close> in
  \<^verbatim>\<open>database.py\<close>) and SQLite answers the query by a scan of that index, so the
  identifiers come in ascending order of the column, each once. Text is compared byte
  by byte, a proper prefix first: the order of strings here.
\<close>

definition distinct_store_ids :: "Session \<Rightarrow> string list" where
  "distinct_store_ids db = sort (remdups (map ss_store_id (tbl_store_status db)))"

definition compute_results :: "zonedb \<Rightarrow> Session \<Rightarrow> int \<Rightarrow> error + UptimeResult list" where
  \<comment> \<open>Lines 193 to 203: the reference instant, the store identifiers, one result each.\<close>
  "compute_results tzdb db utcnow =
     (let current_time = get_max_timestamp db utcnow;
          store_ids = distinct_store_ids db
      in apply_rows (\<lambda>store_id. calculate_uptime_downtime tzdb store_id current_time db)
           store_ids)"

definition write_csv ::
  "io_outcome \<Rightarrow> string \<Rightarrow> UptimeResult list \<Rightarrow> files \<Rightarrow> error option \<times> files" where
  \<comment> \<open>Lines 205 to 221: the exception raised, if any, and the directory afterwards.\<close>
  "write_csv outcome path results fs =
     (case outcome of
        Written \<Rightarrow> (None, fs(path \<mapsto> \<lparr>header = fieldnames, rows = results\<rparr>))
      | OpenFails \<Rightarrow> (Some OSError, fs)
      | WriteFails n \<Rightarrow>
          (Some OSError, fs(path \<mapsto> \<lparr>header = fieldnames, rows = take n results\<rparr>)))"

fun update_first :: "('a \<Rightarrow> bool) \<Rightarrow> ('a \<Rightarrow> 'a) \<Rightarrow> 'a list \<Rightarrow> 'a list" where
  \<comment> \<open>Assigning to the attributes of \<^verbatim>\<open>query.first()\<close> and committing.\<close>
  "update_first p f [] = []"
| "update_first p f (x # xs) = (if p x then f x # xs else x # update_first p f xs)"

definition update_report :: "string \<Rightarrow> (ReportStatus \<Rightarrow> ReportStatus) \<Rightarrow> Session \<Rightarrow> Session" where
  "update_report report_id f db =
     db\<lparr>tbl_report_status :=
          update_first (\<lambda>r. rs_report_id r = report_id) f (tbl_report_status db)\<rparr>"

definition try_block ::
  "zonedb \<Rightarrow> job_world \<Rightarrow> string \<Rightarrow> Session \<Rightarrow> files \<Rightarrow> error option \<times> Session \<times> files" where
  \<comment> \<open>The body of \<^verbatim>\<open>try\<close>: the exception it ends with, if any, and the state it
     leaves.\<close>
  "try_block tzdb w report_id db fs =
     (case compute_results tzdb db (utcnow_start w) of
        Inl e \<Rightarrow> (Some e, db, fs)
      | Inr results \<Rightarrow>
          (case write_csv (io w) (output_file report_id) results fs of
             (Some e, fs') \<Rightarrow> (Some e, db, fs')
           | (None, fs') \<Rightarrow>
               (None,
                update_report report_id
                  (\<lambda>report. report\<lparr>rs_status := ''Complete'',
                                    rs_completed_at := Some (utcnow_end w)\<rparr>) db,
                fs')))"

definition trigger_report_generation ::
  "zonedb \<Rightarrow> job_world \<Rightarrow> string \<Rightarrow> Session \<Rightarrow> files \<Rightarrow> Session \<times> files" where
  "trigger_report_generation tzdb w report_id db fs =
     (case try_block tzdb w report_id db fs of
        (None, db', fs') \<Rightarrow> (db', fs')
      | (Some e, db', fs') \<Rightarrow>
          (update_report report_id (\<lambda>report. report\<lparr>rs_status := ''Error''\<rparr>) db', fs'))"

subsection \<open>The endpoints of \<^verbatim>\<open>main.py\<close>\<close>

datatype response =
    Json "(string \<times> string) list"
  | FileResponse string string string
  | HTTPException nat string

text \<open>
  The running service: the database, the report directory and the background tasks
  that were added and have not run yet, each named by its report identifier.
\<close>

record system =
  sys_db :: Session
  sys_files :: files
  sys_tasks :: "string list"

definition trigger_report :: "string \<Rightarrow> int \<Rightarrow> system \<Rightarrow> error + system \<times> response" where
  \<comment> \<open>The first argument is the value of \<^verbatim>\<open>uuid.uuid4()\<close>, the second the reading of
     the clock for \<^verbatim>\<open>created_at\<close>. The column \<^verbatim>\<open>report_id\<close> is unique: the commit of a
     second row with the same identifier raises.\<close>
  "trigger_report report_id utcnow s =
     (if report_id \<in> set (map rs_report_id (tbl_report_status (sys_db s)))
      then Inl IntegrityError
      else
        Inr (s\<lparr>sys_db := (sys_db s)\<lparr>tbl_report_status :=
                   tbl_report_status (sys_db s) @
                     [\<lparr>rs_report_id = report_id, rs_status = ''Running'',
                       rs_created_at = utcnow, rs_completed_at = None\<rparr>]\<rparr>,
                 sys_tasks := sys_tasks s @ [report_id]\<rparr>,
             Json [(''report_id'', report_id)]))"

definition get_report :: "string \<Rightarrow> system \<Rightarrow> response" where
  "get_report report_id s =
     (case get_report_status report_id (sys_db s) of
        None \<Rightarrow> HTTPException 404 (''Report with ID '' @ report_id @ '' not found'')
      | Some status \<Rightarrow>
          if rs_status status = ''Running'' then Json [(''status'', ''Running'')]
          else if rs_status status = ''Complete'' then
            (let file_path = output_file report_id
             in if sys_files s file_path \<noteq> None then
                  FileResponse file_path (''report_'' @ report_id @ ''.csv'') ''text/csv''
                else HTTPException 404 ''Report file not found'')
          else HTTPException 500 ''Unknown report status'')"

text \<open>
  What happens to the service: a request to either endpoint, or the run of a
  background task that \<^verbatim>\<open>trigger_report\<close> added. A task runs once and leaves the list. A
  request that raises leaves the service as it was.
\<close>

datatype event =
    TriggerReport string int
  | RunBackgroundTask string job_world
  | GetReport string

fun step :: "zonedb \<Rightarrow> event \<Rightarrow> system \<Rightarrow> system" where
  "step tzdb (TriggerReport report_id utcnow) s =
     (case trigger_report report_id utcnow s of Inl e \<Rightarrow> s | Inr (s', r) \<Rightarrow> s')"
| "step tzdb (RunBackgroundTask report_id w) s =
     (if report_id \<in> set (sys_tasks s) then
        (case trigger_report_generation tzdb w report_id (sys_db s) (sys_files s) of
           (db', fs') \<Rightarrow>
             \<lparr>sys_db = db', sys_files = fs',
              sys_tasks = removeAll report_id (sys_tasks s)\<rparr>)
      else s)"
| "step tzdb (GetReport report_id) s = s"

definition run :: "zonedb \<Rightarrow> event list \<Rightarrow> system \<Rightarrow> system" where
  "run tzdb events s = fold (step tzdb) events s"

definition initial_system ::
  "StoreStatus list \<Rightarrow> BusinessHours list \<Rightarrow> Timezone list \<Rightarrow> system" where
  \<comment> \<open>The service at its start over loaded data tables: no report yet.\<close>
  "initial_system observations schedule zones =
     \<lparr>sys_db = \<lparr>tbl_store_status = observations, tbl_business_hours = schedule,
                tbl_timezone = zones, tbl_report_status = []\<rparr>,
      sys_files = Map.empty, sys_tasks = []\<rparr>"

definition job_status :: "string \<Rightarrow> system \<Rightarrow> string option" where
  "job_status report_id s = map_option rs_status (get_report_status report_id (sys_db s))"

definition job_completed_at :: "string \<Rightarrow> system \<Rightarrow> int option option" where
  "job_completed_at report_id s =
     map_option rs_completed_at (get_report_status report_id (sys_db s))"

subsection \<open>Sample data\<close>

text \<open>
  An excerpt of the zone database for 2023: UTC, and America/Chicago with its daylight
  saving time from 2023-03-12 08:00 UTC to 2023-11-05 07:00 UTC.
\<close>

definition sample_tzdb :: zonedb where
  "sample_tzdb name =
     (if name = ''UTC'' then Some pytz_utc
      else if name = ''America/Chicago'' then
        Some (\<lambda>u. if 1678608000 * SECOND \<le> u \<and> u < 1699167600 * SECOND
                   then - 5 * HOUR else - 6 * HOUR)
      else None)"

text \<open>2023-01-25 18:13:22.479220 UTC, a Wednesday; the instants of the samples count from it.\<close>

definition sample_now :: int where
  "sample_now = 1674670402479220"

definition chicago :: tzfile where
  "chicago = (case sample_tzdb ''America/Chicago'' of Some z \<Rightarrow> z | None \<Rightarrow> pytz_utc)"

definition observation :: "string \<Rightarrow> int \<Rightarrow> string \<Rightarrow> StoreStatus" where
  "observation store_id ts st =
     \<lparr>ss_store_id = store_id, ss_timestamp_utc = ts, ss_status = st\<rparr>"

text \<open>A schedule of Monday to Friday, 09:00 to 17:00.\<close>

definition weekdays_9_to_17 :: "string \<Rightarrow> BusinessHours list" where
  "weekdays_9_to_17 store_id =
     map (\<lambda>day. \<lparr>bh_store_id = store_id, bh_day_of_week = day,
                  bh_start_time_local = time_of 9 0 0, bh_end_time_local = time_of 17 0 0\<rparr>)
       [0..4]"

text \<open>A schedule of Sundays only, the whole day.\<close>

definition sundays_only :: "string \<Rightarrow> BusinessHours list" where
  "sundays_only store_id =
     [\<lparr>bh_store_id = store_id, bh_day_of_week = 6,
       bh_start_time_local = time_of 0 0 0, bh_end_time_local = time_of 23 59 59\<rparr>]"

definition data_tables ::
  "StoreStatus list \<Rightarrow> BusinessHours list \<Rightarrow> Timezone list \<Rightarrow> Session" where
  "data_tables observations schedule zones =
     sys_db (initial_system observations schedule zones)"

subsection \<open>The reference instant, in the words of the specification\<close>

text \<open>
  The maximum observed timestamp across all status observations, or the wall-clock
  time at the start of the job if there is no observation at all.
\<close>

definition reference_instant :: "StoreStatus list \<Rightarrow> int \<Rightarrow> int" where
  "reference_instant observations wall_clock =
     (if observations = [] then wall_clock else Max (ss_timestamp_utc ` set observations))"

subsection \<open>The jobs of a running service\<close>

text \<open>
  What holds of every report of the service at every moment: a report that is Running
  has its background task waiting and no completion instant; a report that is Complete
  has no task left, a completion instant, and its whole file, one row per observed
  store; a report in Error has no task left and no completion instant; and no task
  waits for a report that does not exist.
\<close>

definition job_inv :: "system \<Rightarrow> bool" where
  "job_inv s =
     (\<forall>report_id.
        case get_report_status report_id (sys_db s) of
          None \<Rightarrow> report_id \<notin> set (sys_tasks s)
        | Some r \<Rightarrow>
            rs_status r = ''Running'' \<and> report_id \<in> set (sys_tasks s)
              \<and> rs_completed_at r = None
          \<or> rs_status r = ''Complete'' \<and> report_id \<notin> set (sys_tasks s)
              \<and> rs_completed_at r \<noteq> None
              \<and> (\<exists>results.
                    sys_files s (output_file report_id)
                      = Some \<lparr>header = fieldnames, rows = results\<rparr>
                    \<and> map row_store_id results = distinct_store_ids (sys_db s))
          \<or> rs_status r = ''Error'' \<and> report_id \<notin> set (sys_tasks s)
              \<and> rs_completed_at r = None)"

text \<open>
  Two services for the samples. In the first the only store has a schedule for Sundays
  and an observation on a Wednesday, so its jobs complete; in the second the store has
  the default schedule, so its jobs raise.
\<close>

definition quiet_system :: system where
  "quiet_system =
     initial_system [observation ''S4'' (sample_now - HOUR) ''active''] (sundays_only ''S4'') []"

definition open_system :: system where
  "open_system = initial_system [observation ''S2'' sample_now ''active''] [] []"

section \<open>Properties\<close>

subsection \<open>Business-hours membership\<close>

text \<open>
  \<^verbatim>\<open>local_time\<close> is aware, \<^verbatim>\<open>start_dt\<close> is naive: the first rule of the local weekday ends
  the call with \<^verbatim>\<open>TypeError\<close>. The call returns \<^verbatim>\<open>False\<close> when the schedule has no rule
  for the local weekday, and it never returns \<^verbatim>\<open>True\<close>.
\<close>

lemma datetime_le_combine_aware:
  "tzinfo d = Some off \<Longrightarrow> datetime_le (combine dt tm) d = Inl TypeError"
  by (simp add: datetime_le_def combine_def)

lemma matching_hours_aware:
  "tzinfo local_time = Some off \<Longrightarrow>
   matching_hours local_time dow hs =
     (if dow \<in> day_of_week ` set hs then Inl TypeError else Inr False)"
  by (induction hs) (auto simp: datetime_le_combine_aware)

lemma tzinfo_astimezone: "tzinfo (astimezone d z) \<noteq> None"
  by (simp add: astimezone_def Let_def)

lemma is_store_open_result:
  "is_store_open tzdb ts store_id hs tz_str
     \<in> {Inl UnknownTimeZoneError, Inl TypeError, Inr False}"
proof (cases "tzdb tz_str")
  case None
  then show ?thesis by (simp add: is_store_open_def)
next
  case (Some z)
  obtain off where "tzinfo (astimezone (replace_tzinfo ts 0) z) = Some off"
    using tzinfo_astimezone by blast
  with Some show ?thesis
    by (simp add: is_store_open_def Let_def matching_hours_aware)
qed

lemma is_store_open_not_True: "is_store_open tzdb ts store_id hs tz_str \<noteq> Inr True"
  using is_store_open_result [of tzdb ts store_id hs tz_str] by auto

text \<open>
  C1. Business-hours membership holds exactly when the local time of day lies in the
  closed interval of a rule of the local weekday. The code does not compute this: at
  2023-01-25 18:13:22.479220 UTC, which is Wednesday 12:13:22.479220 in
  America/Chicago, under the schedule Monday to Friday 09:00 to 17:00, the call raises
  \<^verbatim>\<open>TypeError\<close> where the claim has it return true.
\<close>

theorem is_store_open_raises_within_hours:
  "weekday (astimezone (replace_tzinfo (naive sample_now) 0) chicago) = 2 \<and>
   wall (astimezone (replace_tzinfo (naive sample_now) 0) chicago) mod DAY
     = time_of 12 13 22 + 479220 \<and>
   get_business_hours ''S1'' (data_tables [] (weekdays_9_to_17 ''S1'') [])
     = map (\<lambda>day. \<lparr>day_of_week = day, start_time_local = time_of 9 0 0,
                     end_time_local = time_of 17 0 0\<rparr>) [0, 1, 2, 3, 4] \<and>
   is_store_open sample_tzdb (naive sample_now) ''S1''
     (get_business_hours ''S1'' (data_tables [] (weekdays_9_to_17 ''S1'') []))
     ''America/Chicago'' = Inl TypeError"
  by code_simp

subsection \<open>The metrics of one store\<close>

lemma apply_rows_no_True:
  "apply_rows f xs = Inr ys \<Longrightarrow> (\<And>x. f x \<noteq> Inr True) \<Longrightarrow> filter snd (zip xs ys) = []"
proof (induction xs arbitrary: ys)
  case Nil
  then show ?case by simp
next
  case (Cons x xs)
  from Cons.prems obtain y ys' where fx: "f x = Inr y" and rest: "apply_rows f xs = Inr ys'"
    and ys: "ys = y # ys'"
    by (auto split: sum.splits)
  from fx Cons.prems(2) have "\<not> y" by (cases y) auto
  with Cons.IH [OF rest Cons.prems(2)] ys show ?case by simp
qed

text \<open>
  Since no observation is ever found to be within business hours, a call that returns
  returns the six zeros: the code that computes the ratios and the business durations
  is never reached.
\<close>

lemma calculate_uptime_downtime_zero:
  "calculate_uptime_downtime tzdb store_id now db = Inr r \<Longrightarrow> r = zero_result store_id"
  unfolding calculate_uptime_downtime_def Let_def
  by (auto split: option.splits if_splits sum.splits
      dest!: apply_rows_no_True simp: is_store_open_not_True)

text \<open>
  C3. Where the in-hours observation set of a range is not empty, uptime is the active
  ratio times the total business duration and uptime plus downtime is the total
  business duration. The code does not get there: for a store open Monday to Friday
  09:00 to 17:00 in America/Chicago with an active observation at 11:43 and an inactive
  one at 12:13 local time on a Wednesday, the claim gives 30 and 30 minutes for the
  last hour, and the call raises \<^verbatim>\<open>TypeError\<close>.
\<close>

theorem uptime_of_half_active_store_raises:
  "calculate_uptime_downtime sample_tzdb ''S1'' sample_now
     (data_tables
        [observation ''S1'' (sample_now - HOUR div 2) ''active'',
         observation ''S1'' sample_now ''inactive'']
        (weekdays_9_to_17 ''S1'')
        [\<lparr>tz_store_id = ''S1'', tz_timezone_str = ''America/Chicago''\<rparr>])
   = Inl TypeError"
  by code_simp

text \<open>
  C6. The total business duration of the day and week ranges is counted in 24 and 168
  hourly steps back from the reference instant, and the hour range is one unit of 60
  minutes. The code does not get there: for a store open Monday to Friday 09:00 to
  17:00 with one active observation at the reference instant, Wednesday 12:13 local
  time, the call raises \<^verbatim>\<open>TypeError\<close> and counts nothing.
\<close>

theorem business_duration_of_scheduled_store_raises:
  "calculate_uptime_downtime sample_tzdb ''S1'' sample_now
     (data_tables [observation ''S1'' sample_now ''active''] (weekdays_9_to_17 ''S1'') [])
   = Inl TypeError"
  by code_simp

text \<open>
  C8. A store without a recorded schedule gets the default schedule, and its total
  business durations are 60 minutes, 24 hours and 168 hours. The code does not get
  there: for a store with no schedule and no time zone record and one active
  observation at the reference instant, the call raises \<^verbatim>\<open>TypeError\<close>.
\<close>

theorem business_duration_of_default_schedule_raises:
  "get_business_hours ''S2'' (data_tables [observation ''S2'' sample_now ''active''] [] [])
     = map (\<lambda>day. \<lparr>day_of_week = day, start_time_local = time_of 0 0 0,
                     end_time_local = time_of 23 59 59\<rparr>) [0, 1, 2, 3, 4, 5, 6] \<and>
   calculate_uptime_downtime sample_tzdb ''S2'' sample_now
     (data_tables [observation ''S2'' sample_now ''active''] [] [])
   = Inl TypeError"
  by code_simp

text \<open>
  C5, as stated, fails: the time zone of the store is resolved before its observations
  are read, so a store with no observation in the week and a time zone name that the
  zone database does not hold ends in \<^verbatim>\<open>UnknownTimeZoneError\<close>, not in six zeros.
\<close>

theorem unknown_zone_raises_without_observations:
  "filter (\<lambda>r. ss_store_id r = ''S5'' \<and> sample_now - 7 * DAY \<le> ss_timestamp_utc r
                 \<and> ss_timestamp_utc r \<le> sample_now)
     (tbl_store_status
        (data_tables
           [observation ''S5'' (sample_now - 8 * DAY) ''active'',
            observation ''S2'' sample_now ''active'']
           [] [\<lparr>tz_store_id = ''S5'', tz_timezone_str = ''Nowhere/Zone''\<rparr>])) = [] \<and>
   calculate_uptime_downtime sample_tzdb ''S5'' sample_now
     (data_tables
        [observation ''S5'' (sample_now - 8 * DAY) ''active'',
         observation ''S2'' sample_now ''active'']
        [] [\<lparr>tz_store_id = ''S5'', tz_timezone_str = ''Nowhere/Zone''\<rparr>])
   = Inl UnknownTimeZoneError"
  by code_simp

text \<open>
  C5, amended. A store whose time zone name the zone database holds, and with no
  observation in the week before the reference instant, gets six zeros and no
  exception.
\<close>

theorem no_observations_in_week_all_zero:
  assumes "tzdb (get_store_timezone store_id db) \<noteq> None"
    and "\<forall>r \<in> set (tbl_store_status db).
           ss_store_id r = store_id \<longrightarrow>
           \<not> (now - 7 * DAY \<le> ss_timestamp_utc r \<and> ss_timestamp_utc r \<le> now)"
  shows "\<exists>result. calculate_uptime_downtime tzdb store_id now db = Inr result \<and>
           row_store_id result = store_id \<and>
           uptime_last_hour result = 0 \<and> uptime_last_day result = 0 \<and>
           uptime_last_week result = 0 \<and> downtime_last_hour result = 0 \<and>
           downtime_last_day result = 0 \<and> downtime_last_week result = 0"
proof -
  from assms(1) obtain local_tz where tz: "tzdb (get_store_timezone store_id db) = Some local_tz"
    by auto
  from assms(2) have none:
    "filter (\<lambda>r. ss_store_id r = store_id \<and> now - 7 * DAY \<le> ss_timestamp_utc r
                   \<and> ss_timestamp_utc r \<le> now) (tbl_store_status db) = []"
    by (auto simp: filter_empty_conv)
  have "calculate_uptime_downtime tzdb store_id now db = Inr (zero_result store_id)"
    by (simp add: calculate_uptime_downtime_def Let_def tz none)
  then show ?thesis by (simp add: zero_result_def)
qed

theorem no_observations_in_week_all_zero_witness:
  "sample_tzdb (get_store_timezone ''S3''
      (data_tables [observation ''S3'' (sample_now - 8 * DAY) ''active'',
                    observation ''S2'' sample_now ''active''] [] [])) \<noteq> None \<and>
   calculate_uptime_downtime sample_tzdb ''S3'' sample_now
     (data_tables [observation ''S3'' (sample_now - 8 * DAY) ''active'',
                   observation ''S2'' sample_now ''active''] [] [])
   = Inr (zero_result ''S3'')"
proof -
  let ?db = "data_tables [observation ''S3'' (sample_now - 8 * DAY) ''active'',
                          observation ''S2'' sample_now ''active''] [] []"
  have tz: "sample_tzdb (get_store_timezone ''S3'' ?db) \<noteq> None"
    by code_simp
  have quiet: "\<forall>r \<in> set (tbl_store_status ?db).
           ss_store_id r = ''S3'' \<longrightarrow>
           \<not> (sample_now - 7 * DAY \<le> ss_timestamp_utc r \<and> ss_timestamp_utc r \<le> sample_now)"
    by (simp add: data_tables_def initial_system_def observation_def DAY_def HOUR_def SECOND_def)
  from no_observations_in_week_all_zero [of sample_tzdb "''S3''" ?db sample_now, OF tz quiet]
  obtain result where r: "calculate_uptime_downtime sample_tzdb ''S3'' sample_now ?db = Inr result"
    by blast
  from calculate_uptime_downtime_zero [OF r] r tz show ?thesis by simp
qed

subsection \<open>The job\<close>

lemma sql_max_Max: "xs \<noteq> [] \<Longrightarrow> sql_max xs = Some (Max (set xs))"
  by (cases xs) (simp_all add: sql_max_def Max.set_eq_fold [symmetric])

lemma get_max_timestamp_reference_instant:
  "get_max_timestamp db utcnow = reference_instant (tbl_store_status db) utcnow"
proof (cases "tbl_store_status db = []")
  case True
  then show ?thesis by (simp add: get_max_timestamp_def reference_instant_def sql_max_def)
next
  case False
  then have "sql_max (map ss_timestamp_utc (tbl_store_status db))
             = Some (Max (ss_timestamp_utc ` set (tbl_store_status db)))"
    using sql_max_Max [of "map ss_timestamp_utc (tbl_store_status db)"] by simp
  with False show ?thesis by (simp add: get_max_timestamp_def reference_instant_def)
qed

lemma apply_rows_Inr:
  "apply_rows f xs = Inr ys \<Longrightarrow> list_all2 (\<lambda>x y. f x = Inr y) xs ys"
  by (induction xs arbitrary: ys) (auto split: sum.splits)

lemma apply_rows_Inl:
  "apply_rows f xs = Inl e \<Longrightarrow> \<exists>x. x \<in> set xs \<and> f x = Inl e"
  by (induction xs) (auto split: sum.splits)

text \<open>
  C4. The reference instant of a job is the maximum timestamp of all observations, or
  the reading of the clock at the start when there is none; it is computed once and
  every store's computation of the job, returning or raising, is made at it.
\<close>

theorem job_reference_instant:
  "get_max_timestamp db utcnow = reference_instant (tbl_store_status db) utcnow \<and>
   (compute_results tzdb db utcnow = Inr results \<longrightarrow>
      list_all2
        (\<lambda>store_id result.
           calculate_uptime_downtime tzdb store_id
             (reference_instant (tbl_store_status db) utcnow) db = Inr result)
        (distinct_store_ids db) results) \<and>
   (compute_results tzdb db utcnow = Inl e \<longrightarrow>
      (\<exists>store_id. store_id \<in> set (distinct_store_ids db) \<and>
         calculate_uptime_downtime tzdb store_id
           (reference_instant (tbl_store_status db) utcnow) db = Inl e))"
  using apply_rows_Inl [of _ "distinct_store_ids db" e]
  by (auto simp: compute_results_def Let_def get_max_timestamp_reference_instant
        dest: apply_rows_Inr)

theorem job_reference_instant_witness:
  "reference_instant
     [observation ''S3'' (sample_now - 8 * DAY) ''active'',
      observation ''S4'' (sample_now - HOUR) ''active''] 0 = sample_now - HOUR \<and>
   list_all2
     (\<lambda>store_id result.
        calculate_uptime_downtime sample_tzdb store_id (sample_now - HOUR)
          (data_tables
             [observation ''S3'' (sample_now - 8 * DAY) ''active'',
              observation ''S4'' (sample_now - HOUR) ''active'']
             (sundays_only ''S4'') []) = Inr result)
     [''S3'', ''S4''] [zero_result ''S3'', zero_result ''S4'']"
proof -
  let ?obs = "[observation ''S3'' (sample_now - 8 * DAY) ''active'',
               observation ''S4'' (sample_now - HOUR) ''active'']"
  let ?db = "data_tables ?obs (sundays_only ''S4'') []"
  have tables: "tbl_store_status ?db = ?obs"
    by (simp add: data_tables_def initial_system_def)
  have ids: "distinct_store_ids ?db = [''S3'', ''S4'']"
    by code_simp
  have now: "get_max_timestamp ?db 0 = sample_now - HOUR"
    by code_simp
  have results: "compute_results sample_tzdb ?db 0 = Inr [zero_result ''S3'', zero_result ''S4'']"
    by code_simp
  note at_max = job_reference_instant
    [of ?db 0 sample_tzdb "[zero_result ''S3'', zero_result ''S4'']"]
  from at_max now tables have instant: "reference_instant ?obs 0 = sample_now - HOUR"
    by simp
  from at_max results have
    "list_all2
       (\<lambda>store_id result.
          calculate_uptime_downtime sample_tzdb store_id
            (reference_instant (tbl_store_status ?db) 0) ?db = Inr result)
       (distinct_store_ids ?db) [zero_result ''S3'', zero_result ''S4'']"
    by blast
  with instant tables ids show ?thesis by simp
qed

lemma first_filter_update_first:
  assumes "\<And>r. key (f r) = key r"
  shows "first (filter (\<lambda>r. key r = k) (update_first (\<lambda>r. key r = u) f xs))
         = (if u = k then map_option f (first (filter (\<lambda>r. key r = k) xs))
            else first (filter (\<lambda>r. key r = k) xs))"
  by (induction xs) (auto simp: first_def assms)

lemma get_report_status_update_report:
  assumes "\<And>r. rs_report_id (f r) = rs_report_id r"
  shows "get_report_status report_id (update_report u f db)
         = (if u = report_id then map_option f (get_report_status report_id db)
            else get_report_status report_id db)"
  using first_filter_update_first [of rs_report_id f report_id u "tbl_report_status db"] assms
  by (simp add: get_report_status_def update_report_def)

lemma generation_raises:
  "compute_results tzdb db (utcnow_start w) = Inl e \<Longrightarrow>
   trigger_report_generation tzdb w report_id db fs
     = (update_report report_id (\<lambda>report. report\<lparr>rs_status := ''Error''\<rparr>) db, fs)"
  by (simp add: trigger_report_generation_def try_block_def)

lemma generation_write_raises:
  "compute_results tzdb db (utcnow_start w) = Inr results \<Longrightarrow> io w \<noteq> Written \<Longrightarrow>
   trigger_report_generation tzdb w report_id db fs
     = (update_report report_id (\<lambda>report. report\<lparr>rs_status := ''Error''\<rparr>) db,
        snd (write_csv (io w) (output_file report_id) results fs))"
  by (cases "io w") (simp_all add: trigger_report_generation_def try_block_def write_csv_def)

lemma generation_completes:
  "compute_results tzdb db (utcnow_start w) = Inr results \<Longrightarrow> io w = Written \<Longrightarrow>
   trigger_report_generation tzdb w report_id db fs
     = (update_report report_id
          (\<lambda>report. report\<lparr>rs_status := ''Complete'',
                            rs_completed_at := Some (utcnow_end w)\<rparr>) db,
        fs(output_file report_id \<mapsto> \<lparr>header = fieldnames, rows = results\<rparr>))"
  by (simp add: trigger_report_generation_def try_block_def write_csv_def)

lemma compute_results_store_ids:
  assumes "compute_results tzdb db utcnow = Inr results"
  shows "map row_store_id results = distinct_store_ids db"
proof -
  from assms have "list_all2
       (\<lambda>store_id result. calculate_uptime_downtime tzdb store_id
                             (get_max_timestamp db utcnow) db = Inr result)
       (distinct_store_ids db) results"
    by (auto simp: compute_results_def Let_def dest: apply_rows_Inr)
  then have "list_all2 (\<lambda>store_id result. row_store_id result = store_id)
               (distinct_store_ids db) results"
    by (rule list_all2_mono) (auto dest: calculate_uptime_downtime_zero simp: zero_result_def)
  then show ?thesis
    by (induction rule: list_all2_induct) auto
qed

lemma distinct_store_ids_set:
  "sorted (distinct_store_ids db) \<and> distinct (distinct_store_ids db) \<and>
   set (distinct_store_ids db) = ss_store_id ` set (tbl_store_status db)"
  by (simp add: distinct_store_ids_def)

text \<open>
  C9. The file of a job that completes holds the header and exactly one row for each
  distinct store identifier of the observation table, in the order of the
  enumeration, which is the ascending order of the identifiers; a store without any
  observation has no row, whatever its schedule and time zone records.
\<close>

theorem artifact_rows_are_the_observed_stores:
  assumes "compute_results tzdb db (utcnow_start w) = Inr results" and "io w = Written"
  shows "snd (trigger_report_generation tzdb w report_id db fs) (output_file report_id)
           = Some \<lparr>header = fieldnames, rows = results\<rparr> \<and>
         map row_store_id results = distinct_store_ids db \<and>
         sorted (map row_store_id results) \<and>
         distinct (map row_store_id results) \<and>
         set (map row_store_id results) = ss_store_id ` set (tbl_store_status db) \<and>
         (store_id \<notin> ss_store_id ` set (tbl_store_status db) \<longrightarrow>
            store_id \<notin> set (map row_store_id results))"
proof -
  have ids: "map row_store_id results = distinct_store_ids db"
    using assms(1) by (rule compute_results_store_ids)
  have written: "snd (trigger_report_generation tzdb w report_id db fs) (output_file report_id)
           = Some \<lparr>header = fieldnames, rows = results\<rparr>"
    using generation_completes [OF assms] by simp
  from ids written distinct_store_ids_set [of db] show ?thesis by simp
qed

text \<open>
  C10. When the job raises, in the computation or in the write, the report row changes
  in its status only: \<^verbatim>\<open>completed_at\<close> and every other field keep their values. When it
  completes, the status and \<^verbatim>\<open>completed_at\<close> are written.
\<close>

theorem error_transition_writes_status_only:
  assumes "get_report_status report_id db = Some report"
  shows "(isl (compute_results tzdb db (utcnow_start w)) \<or> io w \<noteq> Written \<longrightarrow>
            get_report_status report_id
              (fst (trigger_report_generation tzdb w report_id db fs))
            = Some (report\<lparr>rs_status := ''Error''\<rparr>)) \<and>
         (\<not> isl (compute_results tzdb db (utcnow_start w)) \<and> io w = Written \<longrightarrow>
            get_report_status report_id
              (fst (trigger_report_generation tzdb w report_id db fs))
            = Some (report\<lparr>rs_status := ''Complete'',
                            rs_completed_at := Some (utcnow_end w)\<rparr>))"
proof (cases "compute_results tzdb db (utcnow_start w)")
  case (Inl e)
  from generation_raises [OF Inl] assms Inl show ?thesis
    by (simp add: get_report_status_update_report)
next
  case (Inr results)
  show ?thesis
  proof (cases "io w = Written")
    case True
    from generation_completes [OF Inr True] assms Inr True show ?thesis
      by (simp add: get_report_status_update_report)
  next
    case False
    from generation_write_raises [OF Inr False] assms Inr False show ?thesis
      by (simp add: get_report_status_update_report)
  qed
qed


theorem artifact_rows_are_the_observed_stores_witness:
  "snd (trigger_report_generation sample_tzdb \<lparr>utcnow_start = 0, io = Written, utcnow_end = 1\<rparr>
          ''r1''
          (data_tables
             [observation ''S4'' (sample_now - HOUR) ''active'',
              observation ''S3'' (sample_now - 8 * DAY) ''active'',
              observation ''S4'' (sample_now - 2 * HOUR) ''inactive'']
             (sundays_only ''S4'' @ weekdays_9_to_17 ''S9'')
             [\<lparr>tz_store_id = ''S9'', tz_timezone_str = ''UTC''\<rparr>])
          Map.empty)
     ''reports/r1.csv''
     = Some \<lparr>header = fieldnames, rows = [zero_result ''S3'', zero_result ''S4'']\<rparr> \<and>
   ''S9'' \<notin> set (map row_store_id [zero_result ''S3'', zero_result ''S4''])"
proof -
  let ?w = "\<lparr>utcnow_start = 0, io = Written, utcnow_end = 1\<rparr>"
  let ?db = "data_tables
             [observation ''S4'' (sample_now - HOUR) ''active'',
              observation ''S3'' (sample_now - 8 * DAY) ''active'',
              observation ''S4'' (sample_now - 2 * HOUR) ''inactive'']
             (sundays_only ''S4'' @ weekdays_9_to_17 ''S9'')
             [\<lparr>tz_store_id = ''S9'', tz_timezone_str = ''UTC''\<rparr>]"
  have results: "compute_results sample_tzdb ?db (utcnow_start ?w)
                 = Inr [zero_result ''S3'', zero_result ''S4'']"
    by code_simp
  have written: "io ?w = Written"
    by simp
  have unobserved: "''S9'' \<notin> ss_store_id ` set (tbl_store_status ?db)"
    by (simp add: data_tables_def initial_system_def observation_def)
  have path: "output_file ''r1'' = ''reports/r1.csv''"
    by (simp add: output_file_def)
  note rows_of_job = artifact_rows_are_the_observed_stores
    [OF results written, of "''r1''" Map.empty "''S9''"]
  from rows_of_job have artifact:
    "snd (trigger_report_generation sample_tzdb ?w ''r1'' ?db Map.empty) (output_file ''r1'')
     = Some \<lparr>header = fieldnames, rows = [zero_result ''S3'', zero_result ''S4'']\<rparr>"
    by blast
  from rows_of_job unobserved
  have "''S9'' \<notin> set (map row_store_id [zero_result ''S3'', zero_result ''S4''])"
    by blast
  with artifact path show ?thesis by simp
qed

theorem error_transition_writes_status_only_witness:
  "get_report_status ''r1''
     (fst (trigger_report_generation sample_tzdb
             \<lparr>utcnow_start = 150, io = Written, utcnow_end = 200\<rparr> ''r1''
             (sys_db (run sample_tzdb [TriggerReport ''r1'' 100]
                        (initial_system [observation ''S2'' sample_now ''active''] [] [])))
             Map.empty))
   = Some \<lparr>rs_report_id = ''r1'', rs_status = ''Error'', rs_created_at = 100,
            rs_completed_at = None\<rparr> \<and>
   get_report_status ''r1''
     (fst (trigger_report_generation sample_tzdb
             \<lparr>utcnow_start = 150, io = Written, utcnow_end = 200\<rparr> ''r1''
             (sys_db (run sample_tzdb [TriggerReport ''r1'' 100]
                        (initial_system
                           [observation ''S3'' (sample_now - 8 * DAY) ''active'']
                           (sundays_only ''S3'') [])))
             Map.empty))
   = Some \<lparr>rs_report_id = ''r1'', rs_status = ''Complete'', rs_created_at = 100,
            rs_completed_at = Some 200\<rparr>"
proof -
  let ?w = "\<lparr>utcnow_start = 150, io = Written, utcnow_end = 200\<rparr>"
  let ?report = "\<lparr>rs_report_id = ''r1'', rs_status = ''Running'', rs_created_at = 100,
                   rs_completed_at = None\<rparr>"
  let ?bad = "sys_db (run sample_tzdb [TriggerReport ''r1'' 100]
                        (initial_system [observation ''S2'' sample_now ''active''] [] []))"
  let ?good = "sys_db (run sample_tzdb [TriggerReport ''r1'' 100]
                        (initial_system
                           [observation ''S3'' (sample_now - 8 * DAY) ''active'']
                           (sundays_only ''S3'') []))"
  have bad_report: "get_report_status ''r1'' ?bad = Some ?report"
    by code_simp
  have good_report: "get_report_status ''r1'' ?good = Some ?report"
    by code_simp
  have raises: "isl (compute_results sample_tzdb ?bad (utcnow_start ?w))"
    by code_simp
  have returns: "\<not> isl (compute_results sample_tzdb ?good (utcnow_start ?w))"
    by code_simp
  from error_transition_writes_status_only [OF bad_report, of sample_tzdb ?w Map.empty]
    error_transition_writes_status_only [OF good_report, of sample_tzdb ?w Map.empty]
    raises returns
  show ?thesis by simp
qed

subsection \<open>The life of a report job\<close>

lemma job_inv_initial: "job_inv (initial_system observations schedule zones)"
  by (simp add: job_inv_def initial_system_def get_report_status_def first_def)

lemma first_None_iff: "first xs = None \<longleftrightarrow> xs = []"
  by (cases xs) (simp_all add: first_def)

lemma get_report_status_None_iff:
  "get_report_status report_id db = None
   \<longleftrightarrow> report_id \<notin> set (map rs_report_id (tbl_report_status db))"
  by (auto simp: get_report_status_def first_None_iff filter_empty_conv)

lemma get_report_status_append:
  "get_report_status report_id (db\<lparr>tbl_report_status := tbl_report_status db @ [new]\<rparr>)
   = (case get_report_status report_id db of
        Some r \<Rightarrow> Some r
      | None \<Rightarrow> if rs_report_id new = report_id then Some new else None)"
  by (auto simp: get_report_status_def first_def split: list.splits)

lemma distinct_store_ids_reports:
  "distinct_store_ids (db\<lparr>tbl_report_status := reports\<rparr>) = distinct_store_ids db"
  by (simp add: distinct_store_ids_def)

lemma distinct_store_ids_update_report:
  "distinct_store_ids (update_report u f db) = distinct_store_ids db"
  by (simp add: distinct_store_ids_def update_report_def)

lemma output_file_inj: "output_file a = output_file b \<longleftrightarrow> a = b"
  by (simp add: output_file_def)

lemma step_TriggerReport:
  "step tzdb (TriggerReport u utcnow) s =
     (if get_report_status u (sys_db s) = None then
        s\<lparr>sys_db := (sys_db s)\<lparr>tbl_report_status :=
               tbl_report_status (sys_db s) @
                 [\<lparr>rs_report_id = u, rs_status = ''Running'',
                   rs_created_at = utcnow, rs_completed_at = None\<rparr>]\<rparr>,
           sys_tasks := sys_tasks s @ [u]\<rparr>
      else s)"
  by (simp add: trigger_report_def get_report_status_None_iff)

lemma job_inv_TriggerReport:
  assumes "job_inv s"
  shows "job_inv (step tzdb (TriggerReport u utcnow) s)"
proof (cases "get_report_status u (sys_db s) = None")
  case False
  with assms show ?thesis by (auto simp: step_TriggerReport simp del: step.simps)
next
  case True
  show ?thesis
    unfolding job_inv_def
  proof
    fix report_id
    from assms have old: "case get_report_status report_id (sys_db s) of
          None \<Rightarrow> report_id \<notin> set (sys_tasks s)
        | Some r \<Rightarrow>
            rs_status r = ''Running'' \<and> report_id \<in> set (sys_tasks s)
              \<and> rs_completed_at r = None
          \<or> rs_status r = ''Complete'' \<and> report_id \<notin> set (sys_tasks s)
              \<and> rs_completed_at r \<noteq> None
              \<and> (\<exists>results.
                    sys_files s (output_file report_id)
                      = Some \<lparr>header = fieldnames, rows = results\<rparr>
                    \<and> map row_store_id results = distinct_store_ids (sys_db s))
          \<or> rs_status r = ''Error'' \<and> report_id \<notin> set (sys_tasks s)
              \<and> rs_completed_at r = None"
      unfolding job_inv_def by blast
    show "case get_report_status report_id (sys_db (step tzdb (TriggerReport u utcnow) s)) of
          None \<Rightarrow> report_id \<notin> set (sys_tasks (step tzdb (TriggerReport u utcnow) s))
        | Some r \<Rightarrow>
            rs_status r = ''Running''
              \<and> report_id \<in> set (sys_tasks (step tzdb (TriggerReport u utcnow) s))
              \<and> rs_completed_at r = None
          \<or> rs_status r = ''Complete''
              \<and> report_id \<notin> set (sys_tasks (step tzdb (TriggerReport u utcnow) s))
              \<and> rs_completed_at r \<noteq> None
              \<and> (\<exists>results.
                    sys_files (step tzdb (TriggerReport u utcnow) s) (output_file report_id)
                      = Some \<lparr>header = fieldnames, rows = results\<rparr>
                    \<and> map row_store_id results
                        = distinct_store_ids (sys_db (step tzdb (TriggerReport u utcnow) s)))
          \<or> rs_status r = ''Error''
              \<and> report_id \<notin> set (sys_tasks (step tzdb (TriggerReport u utcnow) s))
              \<and> rs_completed_at r = None"
    proof (cases "report_id = u")
      case True
      with \<open>get_report_status u (sys_db s) = None\<close> show ?thesis
        by (simp add: step_TriggerReport get_report_status_append del: step.simps)
    next
      case False
      with old \<open>get_report_status u (sys_db s) = None\<close> show ?thesis
        by (cases "get_report_status report_id (sys_db s)")
           (simp_all add: step_TriggerReport get_report_status_append
              distinct_store_ids_reports del: step.simps)
    qed
  qed
qed

lemma job_inv_report:
  assumes "job_inv s"
  shows "case get_report_status report_id (sys_db s) of
          None \<Rightarrow> report_id \<notin> set (sys_tasks s)
        | Some r \<Rightarrow>
            rs_status r = ''Running'' \<and> report_id \<in> set (sys_tasks s)
              \<and> rs_completed_at r = None
          \<or> rs_status r = ''Complete'' \<and> report_id \<notin> set (sys_tasks s)
              \<and> rs_completed_at r \<noteq> None
              \<and> (\<exists>results.
                    sys_files s (output_file report_id)
                      = Some \<lparr>header = fieldnames, rows = results\<rparr>
                    \<and> map row_store_id results = distinct_store_ids (sys_db s))
          \<or> rs_status r = ''Error'' \<and> report_id \<notin> set (sys_tasks s)
              \<and> rs_completed_at r = None"
  using assms unfolding job_inv_def by blast

lemma pending_is_Running:
  assumes "job_inv s" and "u \<in> set (sys_tasks s)"
  shows "\<exists>r. get_report_status u (sys_db s) = Some r \<and> rs_status r = ''Running''
             \<and> rs_completed_at r = None"
  using job_inv_report [OF assms(1), of u] assms(2)
  by (cases "get_report_status u (sys_db s)") auto

lemma job_inv_after_task:
  assumes inv: "job_inv s" and pending: "u \<in> set (sys_tasks s)"
    and db': "db' = update_report u f (sys_db s)"
    and keeps_id: "\<And>r. rs_report_id (f r) = rs_report_id r"
    and others: "\<And>p. p \<noteq> output_file u \<Longrightarrow> fs' p = sys_files s p"
    and outcome:
      "\<And>r. rs_status r = ''Running'' \<Longrightarrow> rs_completed_at r = None \<Longrightarrow>
         rs_status (f r) = ''Error'' \<and> rs_completed_at (f r) = None
         \<or> rs_status (f r) = ''Complete'' \<and> rs_completed_at (f r) \<noteq> None
            \<and> (\<exists>results. fs' (output_file u) = Some \<lparr>header = fieldnames, rows = results\<rparr>
                  \<and> map row_store_id results = distinct_store_ids (sys_db s))"
  shows "job_inv \<lparr>sys_db = db', sys_files = fs', sys_tasks = removeAll u (sys_tasks s)\<rparr>"
  unfolding job_inv_def
proof
  fix report_id
  let ?s' = "\<lparr>sys_db = db', sys_files = fs', sys_tasks = removeAll u (sys_tasks s)\<rparr>"
  note old = job_inv_report [OF inv, of report_id]
  show "case get_report_status report_id (sys_db ?s') of
          None \<Rightarrow> report_id \<notin> set (sys_tasks ?s')
        | Some r \<Rightarrow>
            rs_status r = ''Running'' \<and> report_id \<in> set (sys_tasks ?s')
              \<and> rs_completed_at r = None
          \<or> rs_status r = ''Complete'' \<and> report_id \<notin> set (sys_tasks ?s')
              \<and> rs_completed_at r \<noteq> None
              \<and> (\<exists>results.
                    sys_files ?s' (output_file report_id)
                      = Some \<lparr>header = fieldnames, rows = results\<rparr>
                    \<and> map row_store_id results = distinct_store_ids (sys_db ?s'))
          \<or> rs_status r = ''Error'' \<and> report_id \<notin> set (sys_tasks ?s')
              \<and> rs_completed_at r = None"
  proof (cases "report_id = u")
    case True
    from pending_is_Running [OF inv pending] obtain r where
      r: "get_report_status u (sys_db s) = Some r" "rs_status r = ''Running''"
         "rs_completed_at r = None"
      by blast
    from outcome [OF r(2) r(3)] r(1) True show ?thesis
      by (auto simp: db' get_report_status_update_report keeps_id
            distinct_store_ids_update_report)
  next
    case False
    then have path: "output_file report_id \<noteq> output_file u"
      by (simp add: output_file_inj)
    from old False others [OF path] show ?thesis
      by (cases "get_report_status report_id (sys_db s)")
         (auto simp: db' get_report_status_update_report keeps_id
            distinct_store_ids_update_report)
  qed
qed

lemma job_inv_RunBackgroundTask:
  assumes "job_inv s"
  shows "job_inv (step tzdb (RunBackgroundTask u w) s)"
proof (cases "u \<in> set (sys_tasks s)")
  case False
  with assms show ?thesis by simp
next
  case True
  show ?thesis
  proof (cases "compute_results tzdb (sys_db s) (utcnow_start w)")
    case (Inl e)
    have "job_inv \<lparr>sys_db = update_report u (\<lambda>report. report\<lparr>rs_status := ''Error''\<rparr>) (sys_db s),
                   sys_files = sys_files s, sys_tasks = removeAll u (sys_tasks s)\<rparr>"
      by (rule job_inv_after_task [OF assms True refl]) simp_all
    with True generation_raises [OF Inl, of u "sys_files s"] show ?thesis by simp
  next
    case (Inr results)
    note ids = compute_results_store_ids [OF Inr]
    show ?thesis
    proof (cases "io w = Written")
      case written: True
      have "job_inv \<lparr>sys_db = update_report u
                        (\<lambda>report. report\<lparr>rs_status := ''Complete'',
                                          rs_completed_at := Some (utcnow_end w)\<rparr>) (sys_db s),
                     sys_files = (sys_files s)(output_file u \<mapsto>
                                    \<lparr>header = fieldnames, rows = results\<rparr>),
                     sys_tasks = removeAll u (sys_tasks s)\<rparr>"
        by (rule job_inv_after_task [OF assms True refl]) (simp_all add: ids)
      with True generation_completes [OF Inr written, of u "sys_files s"] show ?thesis
        by simp
    next
      case False
      have "job_inv \<lparr>sys_db = update_report u (\<lambda>report. report\<lparr>rs_status := ''Error''\<rparr>)
                                 (sys_db s),
                     sys_files = snd (write_csv (io w) (output_file u) results (sys_files s)),
                     sys_tasks = removeAll u (sys_tasks s)\<rparr>"
        by (rule job_inv_after_task [OF assms True refl])
           (simp_all add: write_csv_def split: io_outcome.splits)
      with True generation_write_raises [OF Inr False, of u "sys_files s"] show ?thesis
        by simp
    qed
  qed
qed

lemma job_inv_step: "job_inv s \<Longrightarrow> job_inv (step tzdb e s)"
proof (cases e)
  case (TriggerReport u utcnow)
  assume "job_inv s"
  with TriggerReport show ?thesis by (simp only: job_inv_TriggerReport)
next
  case (RunBackgroundTask u w)
  assume "job_inv s"
  with RunBackgroundTask show ?thesis by (simp only: job_inv_RunBackgroundTask)
next
  case (GetReport u)
  assume "job_inv s"
  with GetReport show ?thesis by simp
qed

lemma job_inv_run: "job_inv s \<Longrightarrow> job_inv (run tzdb events s)"
  unfolding run_def by (induction events arbitrary: s) (simp_all add: job_inv_step)

lemma job_inv_reachable:
  "job_inv (run tzdb events (initial_system observations schedule zones))"
  by (rule job_inv_run) (rule job_inv_initial)

lemma generation_report:
  assumes "get_report_status u db = Some r"
  shows "get_report_status u (fst (trigger_report_generation tzdb w u db fs))
         = Some (if isl (compute_results tzdb db (utcnow_start w)) \<or> io w \<noteq> Written
                 then r\<lparr>rs_status := ''Error''\<rparr>
                 else r\<lparr>rs_status := ''Complete'',
                        rs_completed_at := Some (utcnow_end w)\<rparr>)"
proof (cases "compute_results tzdb db (utcnow_start w)")
  case (Inl e)
  from generation_raises [OF Inl] assms Inl show ?thesis
    by (simp add: get_report_status_update_report)
next
  case (Inr results)
  show ?thesis
  proof (cases "io w = Written")
    case True
    from generation_completes [OF Inr True] assms Inr True show ?thesis
      by (simp add: get_report_status_update_report)
  next
    case False
    from generation_write_raises [OF Inr False] assms Inr False show ?thesis
      by (simp add: get_report_status_update_report)
  qed
qed

lemma generation_other_report:
  assumes "report_id \<noteq> u"
  shows "get_report_status report_id (fst (trigger_report_generation tzdb w u db fs))
         = get_report_status report_id db"
proof (cases "compute_results tzdb db (utcnow_start w)")
  case (Inl e)
  from generation_raises [OF Inl] assms show ?thesis
    by (simp add: get_report_status_update_report)
next
  case (Inr results)
  show ?thesis
  proof (cases "io w = Written")
    case True
    from generation_completes [OF Inr True] assms show ?thesis
      by (simp add: get_report_status_update_report)
  next
    case False
    from generation_write_raises [OF Inr False] assms show ?thesis
      by (simp add: get_report_status_update_report)
  qed
qed

lemma sys_db_RunBackgroundTask:
  "u \<in> set (sys_tasks s) \<Longrightarrow>
   sys_db (step tzdb (RunBackgroundTask u w) s)
     = fst (trigger_report_generation tzdb w u (sys_db s) (sys_files s))"
  by (simp split: prod.splits)

lemma job_status_created:
  assumes "job_status report_id s = None"
  shows "job_status report_id (step tzdb (TriggerReport report_id utcnow) s) = Some ''Running''"
  using assms
  by (simp add: job_status_def step_TriggerReport get_report_status_append del: step.simps)

lemma job_status_kept_by_other_events:
  assumes "job_status report_id s \<noteq> None"
    and "\<not> (\<exists>w. e = RunBackgroundTask report_id w)"
  shows "job_status report_id (step tzdb e s) = job_status report_id s"
proof (cases e)
  case (TriggerReport u utcnow)
  with assms(1) show ?thesis
    by (auto simp: job_status_def step_TriggerReport get_report_status_append
          simp del: step.simps)
next
  case (RunBackgroundTask u w)
  with assms(2) have "report_id \<noteq> u" by auto
  show ?thesis
  proof (cases "u \<in> set (sys_tasks s)")
    case True
    with RunBackgroundTask \<open>report_id \<noteq> u\<close> show ?thesis
      by (simp add: job_status_def sys_db_RunBackgroundTask generation_other_report
            del: step.simps)
  next
    case False
    with RunBackgroundTask show ?thesis by simp
  qed
next
  case (GetReport u)
  then show ?thesis by simp
qed

lemma job_status_after_task:
  assumes "job_inv s" and "job_status report_id s = Some ''Running''"
  shows "report_id \<in> set (sys_tasks s)"
    and "job_status report_id (step tzdb (RunBackgroundTask report_id w) s)
         = Some (if isl (compute_results tzdb (sys_db s) (utcnow_start w)) \<or> io w \<noteq> Written
                 then ''Error'' else ''Complete'')"
    and "\<not> (isl (compute_results tzdb (sys_db s) (utcnow_start w)) \<or> io w \<noteq> Written) \<Longrightarrow>
         job_completed_at report_id (step tzdb (RunBackgroundTask report_id w) s)
         = Some (Some (utcnow_end w))"
proof -
  from assms(2) obtain r where r: "get_report_status report_id (sys_db s) = Some r"
    and running: "rs_status r = ''Running''"
    by (auto simp: job_status_def)
  from job_inv_report [OF assms(1), of report_id] r running
  show pending: "report_id \<in> set (sys_tasks s)" by simp
  note after = generation_report [OF r, of tzdb w "sys_files s"]
  from after show "job_status report_id (step tzdb (RunBackgroundTask report_id w) s)
         = Some (if isl (compute_results tzdb (sys_db s) (utcnow_start w)) \<or> io w \<noteq> Written
                 then ''Error'' else ''Complete'')"
    by (simp add: job_status_def sys_db_RunBackgroundTask [OF pending] del: step.simps)
  assume "\<not> (isl (compute_results tzdb (sys_db s) (utcnow_start w)) \<or> io w \<noteq> Written)"
  with after show "job_completed_at report_id (step tzdb (RunBackgroundTask report_id w) s)
         = Some (Some (utcnow_end w))"
    by (simp add: job_completed_at_def sys_db_RunBackgroundTask [OF pending] del: step.simps)
qed

lemma terminal_not_pending:
  assumes "job_inv s"
    and "job_status report_id s = Some ''Complete'' \<or> job_status report_id s = Some ''Error''"
  shows "report_id \<notin> set (sys_tasks s)"
  using job_inv_report [OF assms(1), of report_id] assms(2)
  by (cases "get_report_status report_id (sys_db s)") (auto simp: job_status_def)

lemma terminal_step:
  assumes "job_inv s"
    and "job_status report_id s = Some ''Complete'' \<or> job_status report_id s = Some ''Error''"
  shows "job_status report_id (step tzdb e s) = job_status report_id s"
proof (cases "\<exists>w. e = RunBackgroundTask report_id w")
  case True
  with terminal_not_pending [OF assms] show ?thesis by auto
next
  case False
  with assms(2) show ?thesis
    by (intro job_status_kept_by_other_events) auto
qed

lemma terminal_run:
  assumes "job_inv s"
    and "job_status report_id s = Some ''Complete'' \<or> job_status report_id s = Some ''Error''"
  shows "job_status report_id (run tzdb later s) = job_status report_id s"
  using assms
proof (induction later arbitrary: s)
  case Nil
  then show ?case by (simp add: run_def)
next
  case (Cons e later)
  have same: "job_status report_id (step tzdb e s) = job_status report_id s"
    using Cons.prems by (rule terminal_step)
  have "job_status report_id (run tzdb later (step tzdb e s))
        = job_status report_id (step tzdb e s)"
    using Cons.prems same by (intro Cons.IH job_inv_step) simp_all
  with same show ?case by (simp add: run_def)
qed

lemma job_status_values:
  assumes "job_inv s"
  shows "job_status report_id s \<in> {None, Some ''Running'', Some ''Complete'', Some ''Error''}"
  using job_inv_report [OF assms, of report_id]
  by (cases "get_report_status report_id (sys_db s)") (auto simp: job_status_def)

text \<open>
  C2. In every state the service reaches from its start, by requests and runs of
  background tasks in any order: a report made by \<^verbatim>\<open>trigger_report\<close> starts as Running;
  a Running report has its task waiting, and the run of that task takes it to Complete
  with the completion instant when nothing raises, and to Error when the computation
  or the file write raises; nothing but the run of its own task takes a report out of
  Running; and a report that is Complete or in Error keeps that status through all
  later events.
\<close>

theorem report_job_lifecycle:
  assumes "s = run tzdb events (initial_system observations schedule zones)"
  shows "(job_status report_id s = None \<longrightarrow>
            job_status report_id (step tzdb (TriggerReport report_id utcnow) s)
              = Some ''Running'') \<and>
         (job_status report_id s = Some ''Running'' \<longrightarrow>
            report_id \<in> set (sys_tasks s) \<and>
            (if isl (compute_results tzdb (sys_db s) (utcnow_start w)) \<or> io w \<noteq> Written
             then job_status report_id (step tzdb (RunBackgroundTask report_id w) s)
                    = Some ''Error''
             else job_status report_id (step tzdb (RunBackgroundTask report_id w) s)
                    = Some ''Complete'' \<and>
                  job_completed_at report_id (step tzdb (RunBackgroundTask report_id w) s)
                    = Some (Some (utcnow_end w)))) \<and>
         (job_status report_id s = Some ''Running'' \<and>
          job_status report_id (step tzdb e s) \<noteq> Some ''Running'' \<longrightarrow>
            (\<exists>w'. e = RunBackgroundTask report_id w')) \<and>
         (job_status report_id s = Some ''Complete'' \<or> job_status report_id s = Some ''Error''
            \<longrightarrow> job_status report_id (run tzdb later s) = job_status report_id s) \<and>
         job_status report_id s \<in> {None, Some ''Running'', Some ''Complete'', Some ''Error''}"
proof -
  have inv: "job_inv s"
    unfolding assms by (rule job_inv_reachable)
  have created: "job_status report_id s = None \<longrightarrow>
            job_status report_id (step tzdb (TriggerReport report_id utcnow) s)
              = Some ''Running''"
    by (rule impI) (rule job_status_created)
  have moved: "job_status report_id s = Some ''Running'' \<longrightarrow>
            report_id \<in> set (sys_tasks s) \<and>
            (if isl (compute_results tzdb (sys_db s) (utcnow_start w)) \<or> io w \<noteq> Written
             then job_status report_id (step tzdb (RunBackgroundTask report_id w) s)
                    = Some ''Error''
             else job_status report_id (step tzdb (RunBackgroundTask report_id w) s)
                    = Some ''Complete'' \<and>
                  job_completed_at report_id (step tzdb (RunBackgroundTask report_id w) s)
                    = Some (Some (utcnow_end w)))"
    using job_status_after_task(1) [OF inv, of report_id]
      job_status_after_task(2) [OF inv, of report_id tzdb w]
      job_status_after_task(3) [OF inv, of report_id tzdb w]
    by (simp del: step.simps)
  have only_task: "job_status report_id s = Some ''Running'' \<and>
          job_status report_id (step tzdb e s) \<noteq> Some ''Running'' \<longrightarrow>
            (\<exists>w'. e = RunBackgroundTask report_id w')"
  proof (rule impI, rule ccontr)
    assume moved_on: "job_status report_id s = Some ''Running'' \<and>
          job_status report_id (step tzdb e s) \<noteq> Some ''Running''"
      and other: "\<not> (\<exists>w'. e = RunBackgroundTask report_id w')"
    from moved_on have "job_status report_id s \<noteq> None" by simp
    from job_status_kept_by_other_events [OF this other, of tzdb] moved_on
    show False by simp
  qed
  have final: "job_status report_id s = Some ''Complete'' \<or> job_status report_id s = Some ''Error''
            \<longrightarrow> job_status report_id (run tzdb later s) = job_status report_id s"
    using terminal_run [OF inv] by blast
  from created moved only_task final job_status_values [OF inv, of report_id]
  show ?thesis by blast
qed

theorem report_job_lifecycle_witness:
  "job_status ''r1'' (step sample_tzdb (TriggerReport ''r1'' 100) (run sample_tzdb [] quiet_system))
     = Some ''Running'' \<and>
   job_status ''r1''
     (step sample_tzdb
        (RunBackgroundTask ''r1'' \<lparr>utcnow_start = 150, io = Written, utcnow_end = 200\<rparr>)
        (run sample_tzdb [TriggerReport ''r1'' 100] quiet_system))
     = Some ''Complete'' \<and>
   job_completed_at ''r1''
     (step sample_tzdb
        (RunBackgroundTask ''r1'' \<lparr>utcnow_start = 150, io = Written, utcnow_end = 200\<rparr>)
        (run sample_tzdb [TriggerReport ''r1'' 100] quiet_system))
     = Some (Some 200) \<and>
   job_status ''r2''
     (step sample_tzdb
        (RunBackgroundTask ''r2'' \<lparr>utcnow_start = 150, io = Written, utcnow_end = 200\<rparr>)
        (run sample_tzdb [TriggerReport ''r2'' 100] open_system))
     = Some ''Error'' \<and>
   job_status ''r1''
     (run sample_tzdb
        [TriggerReport ''r1'' 300, TriggerReport ''r3'' 400,
         RunBackgroundTask ''r3'' \<lparr>utcnow_start = 450, io = OpenFails, utcnow_end = 500\<rparr>,
         RunBackgroundTask ''r1'' \<lparr>utcnow_start = 550, io = Written, utcnow_end = 600\<rparr>,
         GetReport ''r1'']
        (run sample_tzdb
           [TriggerReport ''r1'' 100,
            RunBackgroundTask ''r1'' \<lparr>utcnow_start = 150, io = Written, utcnow_end = 200\<rparr>]
           quiet_system))
     = Some ''Complete''"
  unfolding quiet_system_def open_system_def
proof -
  let ?w = "\<lparr>utcnow_start = 150, io = Written, utcnow_end = 200\<rparr>"
  let ?quiet = "initial_system [observation ''S4'' (sample_now - HOUR) ''active'']
                  (sundays_only ''S4'') []"
  let ?open = "initial_system [observation ''S2'' sample_now ''active''] [] []"
  let ?later = "[TriggerReport ''r1'' 300, TriggerReport ''r3'' 400,
         RunBackgroundTask ''r3'' \<lparr>utcnow_start = 450, io = OpenFails, utcnow_end = 500\<rparr>,
         RunBackgroundTask ''r1'' \<lparr>utcnow_start = 550, io = Written, utcnow_end = 600\<rparr>,
         GetReport ''r1'']"
  have unknown: "job_status ''r1'' (run sample_tzdb [] ?quiet) = None"
    by code_simp
  have running: "job_status ''r1'' (run sample_tzdb [TriggerReport ''r1'' 100] ?quiet)
                 = Some ''Running''"
    by code_simp
  have returns:
    "\<not> (isl (compute_results sample_tzdb
                (sys_db (run sample_tzdb [TriggerReport ''r1'' 100] ?quiet)) (utcnow_start ?w))
        \<or> io ?w \<noteq> Written)"
    by code_simp
  have running2: "job_status ''r2'' (run sample_tzdb [TriggerReport ''r2'' 100] ?open)
                  = Some ''Running''"
    by code_simp
  have raises:
    "isl (compute_results sample_tzdb
            (sys_db (run sample_tzdb [TriggerReport ''r2'' 100] ?open)) (utcnow_start ?w))
     \<or> io ?w \<noteq> Written"
    by code_simp
  have complete:
    "job_status ''r1'' (run sample_tzdb [TriggerReport ''r1'' 100, RunBackgroundTask ''r1'' ?w]
                          ?quiet) = Some ''Complete''"
    by code_simp
  from report_job_lifecycle
         [where tzdb = sample_tzdb and events = "[]" and report_id = "''r1''"
            and utcnow = 100, OF refl] unknown
  have created: "job_status ''r1'' (step sample_tzdb (TriggerReport ''r1'' 100)
                   (run sample_tzdb [] ?quiet)) = Some ''Running''"
    by blast
  from report_job_lifecycle
         [where tzdb = sample_tzdb and events = "[TriggerReport ''r1'' 100]"
            and report_id = "''r1''" and w = ?w, OF refl] running returns
  have completes:
    "job_status ''r1'' (step sample_tzdb (RunBackgroundTask ''r1'' ?w)
        (run sample_tzdb [TriggerReport ''r1'' 100] ?quiet)) = Some ''Complete'' \<and>
     job_completed_at ''r1'' (step sample_tzdb (RunBackgroundTask ''r1'' ?w)
        (run sample_tzdb [TriggerReport ''r1'' 100] ?quiet)) = Some (Some 200)"
    by (simp del: step.simps)
  from report_job_lifecycle
         [where tzdb = sample_tzdb and events = "[TriggerReport ''r2'' 100]"
            and report_id = "''r2''" and w = ?w, OF refl] running2 raises
  have fails:
    "job_status ''r2'' (step sample_tzdb (RunBackgroundTask ''r2'' ?w)
        (run sample_tzdb [TriggerReport ''r2'' 100] ?open)) = Some ''Error''"
    by (simp del: step.simps)
  from report_job_lifecycle
         [where tzdb = sample_tzdb
            and events = "[TriggerReport ''r1'' 100, RunBackgroundTask ''r1'' ?w]"
            and report_id = "''r1''" and later = ?later, OF refl] complete
  have final:
    "job_status ''r1'' (run sample_tzdb ?later
        (run sample_tzdb [TriggerReport ''r1'' 100, RunBackgroundTask ''r1'' ?w] ?quiet))
     = Some ''Complete''"
    by simp
  from created completes fails final show
    "job_status ''r1'' (step sample_tzdb (TriggerReport ''r1'' 100) (run sample_tzdb [] ?quiet))
       = Some ''Running'' \<and>
     job_status ''r1'' (step sample_tzdb (RunBackgroundTask ''r1'' ?w)
        (run sample_tzdb [TriggerReport ''r1'' 100] ?quiet)) = Some ''Complete'' \<and>
     job_completed_at ''r1'' (step sample_tzdb (RunBackgroundTask ''r1'' ?w)
        (run sample_tzdb [TriggerReport ''r1'' 100] ?quiet)) = Some (Some 200) \<and>
     job_status ''r2'' (step sample_tzdb (RunBackgroundTask ''r2'' ?w)
        (run sample_tzdb [TriggerReport ''r2'' 100] ?open)) = Some ''Error'' \<and>
     job_status ''r1'' (run sample_tzdb ?later
        (run sample_tzdb [TriggerReport ''r1'' 100, RunBackgroundTask ''r1'' ?w] ?quiet))
       = Some ''Complete''"
    by blast
qed

text \<open>
  C7. In every state the service reaches, \<^verbatim>\<open>get_report\<close> answers by the status of the
  report: not found (404) for an unknown identifier, the Running signal for a Running
  report, the file for a Complete one (and the file is there, whole), and the error
  response 500 for a report in Error, never its file.
\<close>

theorem get_report_by_job_status:
  assumes "s = run tzdb events (initial_system observations schedule zones)"
  shows "(job_status report_id s = None \<longrightarrow>
            get_report report_id s
              = HTTPException 404 (''Report with ID '' @ report_id @ '' not found'')) \<and>
         (job_status report_id s = Some ''Running'' \<longrightarrow>
            get_report report_id s = Json [(''status'', ''Running'')]) \<and>
         (job_status report_id s = Some ''Complete'' \<longrightarrow>
            get_report report_id s
              = FileResponse (output_file report_id) (''report_'' @ report_id @ ''.csv'')
                  ''text/csv'' \<and>
            (\<exists>results.
               sys_files s (output_file report_id)
                 = Some \<lparr>header = fieldnames, rows = results\<rparr> \<and>
               map row_store_id results = distinct_store_ids (sys_db s))) \<and>
         (job_status report_id s = Some ''Error'' \<longrightarrow>
            get_report report_id s = HTTPException 500 ''Unknown report status'') \<and>
         job_status report_id s \<in> {None, Some ''Running'', Some ''Complete'', Some ''Error''}"
proof -
  have inv: "job_inv s"
    unfolding assms by (rule job_inv_reachable)
  note report = job_inv_report [OF inv, of report_id]
  show ?thesis
  proof (cases "get_report_status report_id (sys_db s)")
    case None
    then show ?thesis by (simp add: job_status_def get_report_def)
  next
    case (Some r)
    with report show ?thesis
      by (auto simp: job_status_def get_report_def Let_def)
  qed
qed

theorem get_report_by_job_status_witness:
  "get_report ''r0'' (run sample_tzdb [TriggerReport ''r1'' 100] quiet_system)
     = HTTPException 404 ''Report with ID r0 not found'' \<and>
   get_report ''r1'' (run sample_tzdb [TriggerReport ''r1'' 100] quiet_system)
     = Json [(''status'', ''Running'')] \<and>
   get_report ''r1''
     (run sample_tzdb
        [TriggerReport ''r1'' 100,
         RunBackgroundTask ''r1'' \<lparr>utcnow_start = 150, io = Written, utcnow_end = 200\<rparr>]
        quiet_system)
     = FileResponse ''reports/r1.csv'' ''report_r1.csv'' ''text/csv'' \<and>
   get_report ''r2''
     (run sample_tzdb
        [TriggerReport ''r2'' 100,
         RunBackgroundTask ''r2'' \<lparr>utcnow_start = 150, io = Written, utcnow_end = 200\<rparr>]
        open_system)
     = HTTPException 500 ''Unknown report status'' \<and>
   get_report ''r3''
     (run sample_tzdb
        [TriggerReport ''r3'' 100,
         RunBackgroundTask ''r3'' \<lparr>utcnow_start = 150, io = WriteFails 0, utcnow_end = 200\<rparr>]
        quiet_system)
     = HTTPException 500 ''Unknown report status''"
  unfolding quiet_system_def open_system_def
proof -
  let ?w = "\<lparr>utcnow_start = 150, io = Written, utcnow_end = 200\<rparr>"
  let ?partial = "\<lparr>utcnow_start = 150, io = WriteFails 0, utcnow_end = 200\<rparr>"
  let ?quiet = "initial_system [observation ''S4'' (sample_now - HOUR) ''active'']
                  (sundays_only ''S4'') []"
  let ?open = "initial_system [observation ''S2'' sample_now ''active''] [] []"
  have unknown: "job_status ''r0'' (run sample_tzdb [TriggerReport ''r1'' 100] ?quiet) = None"
    by code_simp
  have running: "job_status ''r1'' (run sample_tzdb [TriggerReport ''r1'' 100] ?quiet)
                 = Some ''Running''"
    by code_simp
  have complete:
    "job_status ''r1'' (run sample_tzdb [TriggerReport ''r1'' 100, RunBackgroundTask ''r1'' ?w]
                          ?quiet) = Some ''Complete''"
    by code_simp
  have failed:
    "job_status ''r2'' (run sample_tzdb [TriggerReport ''r2'' 100, RunBackgroundTask ''r2'' ?w]
                          ?open) = Some ''Error''"
    by code_simp
  have unwritten:
    "job_status ''r3'' (run sample_tzdb
                          [TriggerReport ''r3'' 100, RunBackgroundTask ''r3'' ?partial]
                          ?quiet) = Some ''Error''"
    by code_simp
  from get_report_by_job_status
         [where tzdb = sample_tzdb and events = "[TriggerReport ''r1'' 100]"
            and report_id = "''r0''", OF refl] unknown
  have not_found: "get_report ''r0'' (run sample_tzdb [TriggerReport ''r1'' 100] ?quiet)
                   = HTTPException 404 ''Report with ID r0 not found''"
    by simp
  from get_report_by_job_status
         [where tzdb = sample_tzdb and events = "[TriggerReport ''r1'' 100]"
            and report_id = "''r1''", OF refl] running
  have still_running: "get_report ''r1'' (run sample_tzdb [TriggerReport ''r1'' 100] ?quiet)
                   = Json [(''status'', ''Running'')]"
    by simp
  from get_report_by_job_status
         [where tzdb = sample_tzdb
            and events = "[TriggerReport ''r1'' 100, RunBackgroundTask ''r1'' ?w]"
            and report_id = "''r1''", OF refl] complete
  have artifact:
    "get_report ''r1''
       (run sample_tzdb [TriggerReport ''r1'' 100, RunBackgroundTask ''r1'' ?w] ?quiet)
     = FileResponse ''reports/r1.csv'' ''report_r1.csv'' ''text/csv''"
    by (simp add: output_file_def)
  from get_report_by_job_status
         [where tzdb = sample_tzdb
            and events = "[TriggerReport ''r2'' 100, RunBackgroundTask ''r2'' ?w]"
            and report_id = "''r2''", OF refl] failed
  have error: "get_report ''r2''
       (run sample_tzdb [TriggerReport ''r2'' 100, RunBackgroundTask ''r2'' ?w] ?open)
     = HTTPException 500 ''Unknown report status''"
    by simp
  from get_report_by_job_status
         [where tzdb = sample_tzdb
            and events = "[TriggerReport ''r3'' 100, RunBackgroundTask ''r3'' ?partial]"
            and report_id = "''r3''", OF refl] unwritten
  have partial_file: "get_report ''r3''
       (run sample_tzdb [TriggerReport ''r3'' 100, RunBackgroundTask ''r3'' ?partial] ?quiet)
     = HTTPException 500 ''Unknown report status''"
    by simp
  from not_found still_running artifact error partial_file show
    "get_report ''r0'' (run sample_tzdb [TriggerReport ''r1'' 100] ?quiet)
       = HTTPException 404 ''Report with ID r0 not found'' \<and>
     get_report ''r1'' (run sample_tzdb [TriggerReport ''r1'' 100] ?quiet)
       = Json [(''status'', ''Running'')] \<and>
     get_report ''r1''
       (run sample_tzdb [TriggerReport ''r1'' 100, RunBackgroundTask ''r1'' ?w] ?quiet)
       = FileResponse ''reports/r1.csv'' ''report_r1.csv'' ''text/csv'' \<and>
     get_report ''r2''
       (run sample_tzdb [TriggerReport ''r2'' 100, RunBackgroundTask ''r2'' ?w] ?open)
       = HTTPException 500 ''Unknown report status'' \<and>
     get_report ''r3''
       (run sample_tzdb [TriggerReport ''r3'' 100, RunBackgroundTask ''r3'' ?partial] ?quiet)
       = HTTPException 500 ''Unknown report status''"
    by blast
qed

end
